theory Spec2Isabelle
  imports Main
begin

section \<open>JavaScript values\<close>

text \<open>
  The service in \<^verbatim>\<open>backend/src/services/yellowNetworkService.js\<close> reads scalar JSON values
  out of messages: correlation ids, method names, session ids, amounts. They are modelled by
  \<open>jsval\<close>. A number is an integer here (correlation ids, clock readings); a string is a list
  of 8-bit characters read as the code points below 256. Equality of two \<open>jsval\<close> is the
  \<^verbatim>\<open>===\<close> of JavaScript and the key equality of a \<^verbatim>\<open>Map\<close> on these scalars.
\<close>

datatype jsval = JUndefined | JNull | JBool bool | JNum int | JStr string

text \<open>\<^verbatim>\<open>a ?? b\<close> passes over \<^verbatim>\<open>undefined\<close> and \<^verbatim>\<open>null\<close> only.\<close>

fun nullish :: "jsval \<Rightarrow> bool" where
  "nullish JUndefined = True"
| "nullish JNull = True"
| "nullish _ = False"

definition coalesce :: "jsval \<Rightarrow> jsval \<Rightarrow> jsval" where
  "coalesce a b = (if nullish a then b else a)"

text \<open>Truthiness, as \<^verbatim>\<open>if (v)\<close>, \<^verbatim>\<open>a && b\<close> and \<^verbatim>\<open>a || b\<close> test it.\<close>

fun truthy :: "jsval \<Rightarrow> bool" where
  "truthy JUndefined = False"
| "truthy JNull = False"
| "truthy (JBool b) = b"
| "truthy (JNum n) = (n \<noteq> 0)"
| "truthy (JStr s) = (s \<noteq> [])"

definition js_or :: "jsval \<Rightarrow> jsval \<Rightarrow> jsval" where
  "js_or a b = (if truthy a then a else b)"

text \<open>
  \<^verbatim>\<open>String(v)\<close> and \<^verbatim>\<open>v.toString()\<close>: decimal digits for an integer (JavaScript prints
  integers of magnitude below \<open>10^21\<close> this way).
\<close>

definition digit_char :: "int \<Rightarrow> char" where
  "digit_char d = ''0123456789'' ! nat d"

function dec_digits :: "int \<Rightarrow> string" where
  "dec_digits n =
     (if n < 10 then [digit_char n] else dec_digits (n div 10) @ [digit_char (n mod 10)])"
  by pat_completeness auto
termination
  by (relation "measure nat") auto

declare dec_digits.simps [simp del]

definition dec_int :: "int \<Rightarrow> string" where
  "dec_int i = (if i < 0 then CHR ''-'' # dec_digits (- i) else dec_digits i)"

fun js_toString :: "jsval \<Rightarrow> string" where
  "js_toString JUndefined = ''undefined''"
| "js_toString JNull = ''null''"
| "js_toString (JBool b) = (if b then ''true'' else ''false'')"
| "js_toString (JNum n) = dec_int n"
| "js_toString (JStr s) = s"

text \<open>
  \<^verbatim>\<open>const normalizeMethod = (m) => String(m || '').toLowerCase().replace(/[^a-z]/g, '')\<close>,
  the same arrow function in \<^verbatim>\<open>resolvePendingRequest\<close> and in \<^verbatim>\<open>sendRequest\<close>.
  On code points below 256 \<^verbatim>\<open>toLowerCase\<close> sends \<open>A..Z\<close> to \<open>a..z\<close> and maps nothing
  else into \<open>a..z\<close>; what it does to the other characters is erased by the filter.
\<close>

definition toLowerCase_char :: "char \<Rightarrow> char" where
  "toLowerCase_char c =
     (case map_of (zip ''ABCDEFGHIJKLMNOPQRSTUVWXYZ'' ''abcdefghijklmnopqrstuvwxyz'') c of
        Some d \<Rightarrow> d
      | None \<Rightarrow> c)"

definition is_az :: "char \<Rightarrow> bool" where
  "is_az c = (c \<in> set ''abcdefghijklmnopqrstuvwxyz'')"

definition normalizeMethod :: "jsval \<Rightarrow> string" where
  "normalizeMethod m =
     filter is_az (map toLowerCase_char (js_toString (js_or m (JStr ''''))))"

section \<open>Messages\<close>

text \<open>
  An inbound message is the object \<^verbatim>\<open>parseAnyRPCResponse(data.toString())\<close> returns. The
  record has one field for each property path the service reads; a path that is absent, or
  that runs through a missing object, is \<open>JUndefined\<close>. \<open>m_req\<close> and \<open>m_res\<close> are \<open>None\<close>
  when the property is not an array (\<^verbatim>\<open>Array.isArray\<close> is false).
\<close>

record message =
  m_requestId :: jsval
  m_reqId :: jsval
  m_req_id :: jsval
  m_req :: "jsval list option"
  m_res :: "jsval list option"
  m_id :: jsval
  m_method :: jsval
  m_params_method :: jsval
  m_name :: jsval
  m_params_success :: jsval
  m_params_balanceUpdates :: jsval
  m_params0_app_session_id :: jsval

text \<open>\<^verbatim>\<open>Array.isArray(a) ? a[0] : undefined\<close>; the first element of an empty array is undefined.\<close>

fun first_of_array :: "jsval list option \<Rightarrow> jsval" where
  "first_of_array None = JUndefined"
| "first_of_array (Some []) = JUndefined"
| "first_of_array (Some (x # xs)) = x"

text \<open>The chain of \<^verbatim>\<open>??\<close> at the head of \<^verbatim>\<open>resolvePendingRequest\<close>.\<close>

definition inferredRequestId :: "message \<Rightarrow> jsval" where
  "inferredRequestId message =
     coalesce (m_requestId message)
       (coalesce (m_reqId message)
         (coalesce (m_req_id message)
           (coalesce (first_of_array (m_req message))
             (coalesce (first_of_array (m_res message)) (m_id message)))))"

text \<open>
  \<^verbatim>\<open>normalizeMethod(message?.method || message?.params?.method || message?.name)\<close>.
\<close>

definition responseMethod :: "message \<Rightarrow> string" where
  "responseMethod message =
     normalizeMethod (js_or (js_or (m_method message) (m_params_method message)) (m_name message))"

text \<open>
  What goes out. The message constructors of the protocol library (\<^verbatim>\<open>createGetChannelsMessage\<close>
  and the others) are outside this repository; they return the JSON text of
  \<^verbatim>\<open>{req: [requestId, method, params, timestamp], sig: [...]}\<close> with a request id of their own
  making. An outbound message is therefore its \<^verbatim>\<open>req[0]\<close>, which is all that
  \<^verbatim>\<open>sendRequest\<close> reads of it, and the call it carries with the arguments the service passed
  to the constructor.
\<close>

record allocation =
  participant :: string
  asset :: string
  alloc_amount :: string

record app_definition =
  protocol :: string
  participants :: "string list"
  weights :: "nat list"
  quorum :: nat
  challenge :: nat
  nonce :: int

record auth_request_params =
  ar_address :: string
  ar_session_key :: string
  ar_app_name :: string
  ar_expire :: string
  ar_scope :: string
  ar_application :: string
  ar_allowances :: "string list"

record eip712_params =
  ep_scope :: string
  ep_application :: string
  ep_participant :: string
  ep_expire :: string
  ep_allowances :: "string list"

datatype rpc_call =
    AuthRequestCall auth_request_params
  | AuthVerifyCall eip712_params string message
  | GetChannelsCall string
  | GetLedgerBalancesCall string
  | CreateAppSessionCall app_definition "allocation list"
  | CloseAppSessionCall jsval "allocation list"

record rpc_message =
  req0 :: jsval
  call :: rpc_call

section \<open>The service and its runtime\<close>

datatype ready_state = CONNECTING | OPEN | CLOSING | CLOSED

datatype error = Error string | TypeError | FailedToCreateSession message

datatype promise_state = Pending | Resolved message | Rejected error

datatype timer_status = Armed | Cleared | Fired

text \<open>
  A timer of \<^verbatim>\<open>setTimeout\<close> in \<^verbatim>\<open>sendRequest\<close>: its status and what its callback closes
  over (\<^verbatim>\<open>requestId\<close>, \<^verbatim>\<open>expectedMethod\<close>, the \<^verbatim>\<open>reject\<close> of the promise).
\<close>

record timer =
  t_status :: timer_status
  t_requestId :: jsval
  t_expectedMethod :: jsval
  t_promise :: nat
  t_delay :: nat

text \<open>
  A value of \<^verbatim>\<open>requestMap\<close>: \<^verbatim>\<open>{resolve, reject, expectedMethod}\<close>, where both closures
  call \<^verbatim>\<open>clearTimeout(timeoutId)\<close> before they settle the promise.
\<close>

record handler =
  h_promise :: nat
  h_timeoutId :: nat
  h_expectedMethod :: jsval

text \<open>
  An element of \<^verbatim>\<open>pendingByMethod\<close>: \<^verbatim>\<open>{method, requestId, resolve, reject, timeoutId}\<close>,
  with the bare \<^verbatim>\<open>resolve\<close> and \<^verbatim>\<open>reject\<close> of the promise.
\<close>

record pending =
  p_method :: string
  p_requestId :: jsval
  p_promise :: nat
  p_timeoutId :: nat

datatype session_status = Open | Completed

record session =
  sessionId :: jsval
  customerAddress :: string
  merchantAddress :: string
  amount :: jsval
  status :: session_status
  createdAt :: int
  completedAt :: "int option"
  biometricHash :: "jsval option"

datatype close_call = Close | CloseWith nat string

text \<open>
  The fields of \<^verbatim>\<open>YellowNetworkService\<close>, then the runtime the service acts on. \<open>ws\<close> is
  \<open>None\<close> for \<^verbatim>\<open>null\<close> and otherwise the \<^verbatim>\<open>readyState\<close> of the socket;
  \<open>walletAddress\<close> is \<^verbatim>\<open>wallet.address\<close>, and \<open>sessionKey\<close> is \<open>None\<close> for \<^verbatim>\<open>null\<close> and
  otherwise \<^verbatim>\<open>sessionKey.address\<close>. \<open>requestMap\<close> and
  \<open>appSessions\<close> are \<^verbatim>\<open>Map\<close>s, kept in insertion order. \<open>appSessions\<close> holds references:
  a session object lives in \<open>heap\<close> at the address the map gives, so that a caller who took
  the object before an \<^verbatim>\<open>await\<close> still writes to that object afterwards. Promises and timers
  are numbered in the order of their creation; \<open>sent\<close> and \<open>closeCalls\<close> log the calls of
  \<^verbatim>\<open>ws.send\<close> and \<^verbatim>\<open>ws.close\<close>.
\<close>

record service =
  ws :: "ready_state option"
  isConnected :: bool
  isAuthenticated :: bool
  isAuthAttempted :: bool
  sessionExpireTimestamp :: "string option"
  walletAddress :: string
  sessionKey :: "string option"
  appName :: string
  authScope :: string
  applicationAddress :: "string option"
  sessionDuration :: int
  requestMap :: "(jsval \<times> handler) list"
  pendingByMethod :: "pending list"
  appSessions :: "(jsval \<times> nat) list"
  heap :: "session list"
  promises :: "promise_state list"
  timers :: "timer list"
  sent :: "rpc_message list"
  closeCalls :: "close_call list"

section \<open>Maps, arrays, promises and timers\<close>

text \<open>A \<^verbatim>\<open>Map\<close> in insertion order: \<^verbatim>\<open>has\<close>, \<^verbatim>\<open>get\<close>, \<^verbatim>\<open>set\<close>, \<^verbatim>\<open>delete\<close>.\<close>

definition map_has :: "'k \<Rightarrow> ('k \<times> 'v) list \<Rightarrow> bool" where
  "map_has k m = (map_of m k \<noteq> None)"

fun map_set :: "'k \<Rightarrow> 'v \<Rightarrow> ('k \<times> 'v) list \<Rightarrow> ('k \<times> 'v) list" where
  "map_set k v [] = [(k, v)]"
| "map_set k v ((k', v') # m) = (if k' = k then (k, v) # m else (k', v') # map_set k v m)"

definition map_delete :: "'k \<Rightarrow> ('k \<times> 'v) list \<Rightarrow> ('k \<times> 'v) list" where
  "map_delete k m = filter (\<lambda>e. fst e \<noteq> k) m"

text \<open>\<^verbatim>\<open>Array.prototype.findIndex\<close> (\<open>None\<close> for \<open>-1\<close>) and \<^verbatim>\<open>splice(index, 1)\<close>.\<close>

fun findIndex :: "('a \<Rightarrow> bool) \<Rightarrow> 'a list \<Rightarrow> nat option" where
  "findIndex P [] = None"
| "findIndex P (x # xs) =
     (if P x then Some 0 else (case findIndex P xs of None \<Rightarrow> None | Some i \<Rightarrow> Some (Suc i)))"

definition splice1 :: "nat \<Rightarrow> 'a list \<Rightarrow> 'a list" where
  "splice1 i xs = take i xs @ drop (Suc i) xs"

text \<open>
  Settling a promise: the \<^verbatim>\<open>resolve\<close> and \<^verbatim>\<open>reject\<close> of a promise that is already settled
  do nothing. \<^verbatim>\<open>clearTimeout\<close> disarms a timer that has not fired and does nothing else.
\<close>

definition settle :: "nat \<Rightarrow> promise_state \<Rightarrow> service \<Rightarrow> service" where
  "settle p v s =
     (if p < length (promises s) \<and> promises s ! p = Pending
      then s\<lparr>promises := (promises s)[p := v]\<rparr> else s)"

definition clearTimeout :: "nat \<Rightarrow> service \<Rightarrow> service" where
  "clearTimeout tid s =
     (if tid < length (timers s) \<and> t_status (timers s ! tid) = Armed
      then s\<lparr>timers := (timers s)[tid := (timers s ! tid)\<lparr>t_status := Cleared\<rparr>]\<rparr> else s)"

text \<open>
  Reading a promise: \<open>promise_at\<close> is its state (a promise not yet created reads as
  pending), \<open>is_pending\<close> says that it exists and is pending.
\<close>

definition promise_at :: "service \<Rightarrow> nat \<Rightarrow> promise_state" where
  "promise_at s p = (if p < length (promises s) then promises s ! p else Pending)"

definition is_pending :: "service \<Rightarrow> nat \<Rightarrow> bool" where
  "is_pending s p = (p < length (promises s) \<and> promises s ! p = Pending)"

text \<open>The two closures stored in \<^verbatim>\<open>requestMap\<close> by \<^verbatim>\<open>sendRequest\<close>.\<close>

definition handler_resolve :: "handler \<Rightarrow> message \<Rightarrow> service \<Rightarrow> service" where
  "handler_resolve h response s = settle (h_promise h) (Resolved response) (clearTimeout (h_timeoutId h) s)"

definition handler_reject :: "handler \<Rightarrow> error \<Rightarrow> service \<Rightarrow> service" where
  "handler_reject h err s = settle (h_promise h) (Rejected err) (clearTimeout (h_timeoutId h) s)"

section \<open>The request correlator\<close>

text \<open>
  \<^verbatim>\<open>sendRequest(message, expectedMethod, timeout = 60000)\<close>. The result is the number of the
  promise it returns and the service afterwards. The executor of the promise runs at once:
  it rejects when there is no open socket, and otherwise arms the timer, stores the handler
  under \<^verbatim>\<open>requestId\<close>, pushes the entry of \<^verbatim>\<open>pendingByMethod\<close> and sends.
\<close>

definition sendRequest :: "rpc_message \<Rightarrow> jsval \<Rightarrow> nat \<Rightarrow> service \<Rightarrow> nat \<times> service" where
  "sendRequest message expectedMethod timeout s =
     (let p = length (promises s);
          s0 = s\<lparr>promises := promises s @ [Pending]\<rparr>
      in if ws s0 = None \<or> ws s0 \<noteq> Some OPEN
         then (p, settle p (Rejected (Error ''WebSocket not connected'')) s0)
         else
           (let requestId = req0 message;
                timeoutId = length (timers s0);
                s1 = s0\<lparr>timers := timers s0 @
                        [\<lparr>t_status = Armed, t_requestId = requestId,
                          t_expectedMethod = expectedMethod, t_promise = p, t_delay = timeout\<rparr>]\<rparr>;
                s2 = s1\<lparr>requestMap := map_set requestId
                        \<lparr>h_promise = p, h_timeoutId = timeoutId, h_expectedMethod = expectedMethod\<rparr>
                        (requestMap s1)\<rparr>;
                methodKey = normalizeMethod expectedMethod;
                s3 = s2\<lparr>pendingByMethod := pendingByMethod s2 @
                        [\<lparr>p_method = methodKey, p_requestId = requestId,
                          p_promise = p, p_timeoutId = timeoutId\<rparr>]\<rparr>
            in (p, s3\<lparr>sent := sent s3 @ [message]\<rparr>)))"

text \<open>
  The callback of the timer armed by \<^verbatim>\<open>sendRequest\<close>, run when timer \<open>tid\<close> fires. A timer
  that was cleared, or that has fired, never runs its callback.
\<close>

definition fireTimeout :: "nat \<Rightarrow> service \<Rightarrow> service" where
  "fireTimeout tid s =
     (if tid < length (timers s) \<and> t_status (timers s ! tid) = Armed then
        (let t = timers s ! tid;
             requestId = t_requestId t;
             s1 = s\<lparr>timers := (timers s)[tid := t\<lparr>t_status := Fired\<rparr>]\<rparr>;
             s2 = s1\<lparr>requestMap := map_delete requestId (requestMap s1)\<rparr>;
             s3 = (if pendingByMethod s2 \<noteq> [] then
                     (let methodKey = normalizeMethod (t_expectedMethod t) in
                      case findIndex (\<lambda>p. p_method p = methodKey \<and> p_requestId p = requestId)
                             (pendingByMethod s2) of
                        Some idx \<Rightarrow> s2\<lparr>pendingByMethod := splice1 idx (pendingByMethod s2)\<rparr>
                      | None \<Rightarrow> s2)
                   else s2)
         in settle (t_promise t)
              (Rejected (Error (''Request timeout for '' @ js_toString (t_expectedMethod t)))) s3)
      else s)"

text \<open>
  \<^verbatim>\<open>resolvePendingRequest(message)\<close>: the returned boolean and the service afterwards. The
  first tier looks the inferred id up in \<^verbatim>\<open>requestMap\<close> and is guarded by the truthiness of
  the id; the second looks the normalised method up in \<^verbatim>\<open>pendingByMethod\<close> and is guarded
  by the method being non-empty; the third takes the only element of \<^verbatim>\<open>pendingByMethod\<close>.
  Nothing in the \<^verbatim>\<open>try\<close> block throws on these values, so the \<^verbatim>\<open>catch\<close> has no branch here.
\<close>

definition resolvePendingRequest :: "message \<Rightarrow> service \<Rightarrow> bool \<times> service" where
  "resolvePendingRequest message s =
     (let rid = inferredRequestId message in
      case (if truthy rid then map_of (requestMap s) rid else None) of
        Some h \<Rightarrow>
          (True, (handler_resolve h message s)\<lparr>requestMap := map_delete rid (requestMap s)\<rparr>)
      | None \<Rightarrow>
         (let rm = responseMethod message in
          case (if rm \<noteq> [] \<and> 0 < length (pendingByMethod s)
                then findIndex (\<lambda>p. p_method p = rm) (pendingByMethod s) else None) of
            Some index \<Rightarrow>
              (let pend = pendingByMethod s ! index;
                   s1 = s\<lparr>pendingByMethod := splice1 index (pendingByMethod s)\<rparr>
               in (True, settle (p_promise pend) (Resolved message)
                           (clearTimeout (p_timeoutId pend) s1)))
          | None \<Rightarrow>
              (if length (pendingByMethod s) = 1 then
                 (let pend = hd (pendingByMethod s);
                      s1 = s\<lparr>pendingByMethod := tl (pendingByMethod s)\<rparr>
                  in (True, settle (p_promise pend) (Resolved message)
                              (clearTimeout (p_timeoutId pend) s1)))
               else (False, s))))"

text \<open>
  \<^verbatim>\<open>disconnect()\<close>. The loop over \<^verbatim>\<open>requestMap.entries()\<close> rejects each handler and deletes
  its key; deleting the entry just visited does not disturb the iteration.
\<close>

fun reject_all :: "(jsval \<times> handler) list \<Rightarrow> service \<Rightarrow> service" where
  "reject_all [] s = s"
| "reject_all ((requestId, h) # es) s =
     reject_all es
       ((handler_reject h (Error ''Connection closed'') s)
          \<lparr>requestMap := map_delete requestId
             (requestMap (handler_reject h (Error ''Connection closed'') s))\<rparr>)"

definition disconnect :: "service \<Rightarrow> service" where
  "disconnect s =
     (let s1 = (if ws s \<noteq> None then
                  (let s' = reject_all (requestMap s) s in
                   s'\<lparr>closeCalls := closeCalls s' @ [CloseWith 1000 ''User initiated disconnect''],
                      ws := None\<rparr>)
                else s)
      in s1\<lparr>isConnected := False, isAuthenticated := False, isAuthAttempted := False,
            appSessions := []\<rparr>)"

section \<open>The authentication handshake\<close>

text \<open>\<^verbatim>\<open>a || b\<close> on an address that may be missing or empty.\<close>

fun address_or :: "string option \<Rightarrow> string \<Rightarrow> string" where
  "address_or None b = b"
| "address_or (Some a) b = (if a \<noteq> [] then a else b)"

text \<open>
  \<^verbatim>\<open>authenticate()\<close>, with the request id \<open>rid\<close> the library gives the message and the
  reading \<open>now\<close> of \<^verbatim>\<open>Date.now()\<close>. The result is the error the call throws, if any, and
  the service afterwards. A missing session key or socket is the \<^verbatim>\<open>TypeError\<close> of reading a
  property of \<^verbatim>\<open>null\<close>; the \<^verbatim>\<open>catch\<close> resets the guard and throws again. Here and
  below, an \<^verbatim>\<open>await\<close> on a message constructor or signer of the library is taken to
  complete at once and without error; the \<^verbatim>\<open>await\<close>s on \<^verbatim>\<open>sendRequest\<close> are where a
  method is split in two.
\<close>

definition authenticate :: "jsval \<Rightarrow> int \<Rightarrow> service \<Rightarrow> error option \<times> service" where
  "authenticate rid now s =
     (if isAuthAttempted s then (None, s)
      else
        (let s1 = s\<lparr>isAuthAttempted := True\<rparr>;
             s2 = s1\<lparr>sessionExpireTimestamp :=
                       Some (js_toString (JNum (now div 1000 + sessionDuration s1)))\<rparr>
         in case sessionKey s2 of
              None \<Rightarrow> (Some TypeError, s2\<lparr>isAuthAttempted := False\<rparr>)
            | Some sessionKeyAddress \<Rightarrow>
               (let authParams =
                      \<lparr>ar_address = walletAddress s2,
                       ar_session_key = sessionKeyAddress,
                       ar_app_name = appName s2,
                       ar_expire = the (sessionExpireTimestamp s2),
                       ar_scope = authScope s2,
                       ar_application = address_or (applicationAddress s2) (walletAddress s2),
                       ar_allowances = []\<rparr>;
                    authRequestPayload = \<lparr>req0 = rid, call = AuthRequestCall authParams\<rparr>
                in if ws s2 = None then (Some TypeError, s2\<lparr>isAuthAttempted := False\<rparr>)
                   else (None, s2\<lparr>sent := sent s2 @ [authRequestPayload]\<rparr>))))"

text \<open>
  \<^verbatim>\<open>handleAuthChallenge(challengeResponse)\<close>. The parameters handed to
  \<^verbatim>\<open>createEIP712AuthMessageSigner\<close> and the domain name are what the verification message
  is signed over; they are kept in the call that is sent.
\<close>

definition handleAuthChallenge :: "jsval \<Rightarrow> message \<Rightarrow> service \<Rightarrow> error option \<times> service" where
  "handleAuthChallenge rid challengeResponse s =
     (if sessionKey s = None \<or> sessionExpireTimestamp s = None \<or> sessionExpireTimestamp s = Some []
      then (Some (Error ''Session key or expire timestamp not available''),
            s\<lparr>isAuthAttempted := False\<rparr>)
      else
        (let authParams =
               \<lparr>ep_scope = authScope s,
                ep_application = address_or (applicationAddress s) (walletAddress s),
                ep_participant = the (sessionKey s),
                ep_expire = the (sessionExpireTimestamp s),
                ep_allowances = []\<rparr>;
             authVerifyPayload =
               \<lparr>req0 = rid, call = AuthVerifyCall authParams (appName s) challengeResponse\<rparr>
         in if ws s = None then (Some TypeError, s\<lparr>isAuthAttempted := False\<rparr>)
            else (None, s\<lparr>sent := sent s @ [authVerifyPayload]\<rparr>)))"

definition handleAuthSuccess :: "message \<Rightarrow> service \<Rightarrow> service" where
  "handleAuthSuccess response s = s\<lparr>isAuthenticated := True\<rparr>"

text \<open>
  The method names \<^verbatim>\<open>RPCMethod.AuthChallenge\<close>, \<^verbatim>\<open>RPCMethod.AuthVerify\<close> and
  \<^verbatim>\<open>RPCMethod.Error\<close> are constants of the protocol library; \<^verbatim>\<open>handleMessage\<close> takes them
  as a parameter.
\<close>

record rpc_methods =
  AuthChallenge :: string
  AuthVerify :: string
  ErrorMethod :: string

text \<open>
  \<^verbatim>\<open>handleMessage(data)\<close> on the parsed response. When the challenge handler throws, the
  \<^verbatim>\<open>catch\<close> of \<^verbatim>\<open>handleMessage\<close> ends the call before any pending request is looked at.
\<close>

definition handleMessage :: "rpc_methods \<Rightarrow> jsval \<Rightarrow> message \<Rightarrow> service \<Rightarrow> service" where
  "handleMessage R rid response s =
     (let (thrown, s1) =
            (if m_method response = JStr (AuthChallenge R)
             then handleAuthChallenge rid response s else (None, s))
      in case thrown of
           Some e \<Rightarrow> s1
         | None \<Rightarrow>
            (let s2 = (if m_method response = JStr (AuthVerify R) \<and> truthy (m_params_success response)
                       then handleAuthSuccess response s1 else s1);
                 s3 = (if m_method response = JStr (ErrorMethod R)
                       then s2\<lparr>isAuthAttempted := False\<rparr> else s2)
             in snd (resolvePendingRequest response s3)))"

section \<open>The connection\<close>

text \<open>
  \<^verbatim>\<open>connect()\<close> closes the socket it finds and opens a new one. The handlers it installs:
  on \<^verbatim>\<open>open\<close> the service is connected and authenticates; on \<^verbatim>\<open>close\<close> the three flags
  fall. The \<^verbatim>\<open>readyState\<close> of the socket is the network's to change. The connection
  timer, the keepalive interval and the events the service emits to its listeners act on
  nothing modelled here and are left out.
\<close>

definition connect :: "service \<Rightarrow> service" where
  "connect s =
     (let s1 = (if ws s \<noteq> None then s\<lparr>closeCalls := closeCalls s @ [Close]\<rparr> else s)
      in s1\<lparr>ws := Some CONNECTING\<rparr>)"

definition on_open :: "jsval \<Rightarrow> int \<Rightarrow> service \<Rightarrow> service" where
  "on_open rid now s = snd (authenticate rid now (s\<lparr>isConnected := True\<rparr>))"

definition on_close :: "service \<Rightarrow> service" where
  "on_close s = s\<lparr>isConnected := False, isAuthenticated := False, isAuthAttempted := False\<rparr>"

definition set_readyState :: "ready_state \<Rightarrow> service \<Rightarrow> service" where
  "set_readyState rs s = s\<lparr>ws := map_option (\<lambda>_. rs) (ws s)\<rparr>"

section \<open>Queries and the session registry\<close>

text \<open>
  An \<^verbatim>\<open>async\<close> method that throws before its first \<^verbatim>\<open>await\<close> returns a rejected promise
  and has changed nothing: that is \<open>Inl\<close> of the error. Otherwise the result is the promise
  of \<^verbatim>\<open>sendRequest\<close> and the service afterwards.
\<close>

definition getChannels :: "jsval \<Rightarrow> service \<Rightarrow> error + nat \<times> service" where
  "getChannels rid s =
     (if \<not> isAuthenticated s then Inl (Error ''Not authenticated with Yellow Network'')
      else
        (let message = \<lparr>req0 = rid,
                        call = GetChannelsCall (address_or (sessionKey s) (walletAddress s))\<rparr>
         in Inr (sendRequest message (JStr ''get_channels'') 60000 s)))"

definition getLedgerBalances :: "jsval \<Rightarrow> service \<Rightarrow> error + nat \<times> service" where
  "getLedgerBalances rid s =
     (if \<not> isAuthenticated s then Inl (Error ''Not authenticated with Yellow Network'')
      else
        (let message = \<lparr>req0 = rid,
                        call = GetLedgerBalancesCall (address_or (sessionKey s) (walletAddress s))\<rparr>
         in Inr (sendRequest message (JStr ''get_ledger_balances'') 60000 s)))"

text \<open>
  \<^verbatim>\<open>createBiometricPaymentSession(customerAddress, merchantAddress, amount)\<close> up to its
  \<^verbatim>\<open>await this.sendRequest(...)\<close>. \<^verbatim>\<open>amount.toString()\<close> on \<^verbatim>\<open>undefined\<close> or \<^verbatim>\<open>null\<close>
  is a \<^verbatim>\<open>TypeError\<close>.
\<close>

definition createBiometricPaymentSession_begin ::
  "jsval \<Rightarrow> int \<Rightarrow> string \<Rightarrow> string \<Rightarrow> jsval \<Rightarrow> service \<Rightarrow> error + nat \<times> service" where
  "createBiometricPaymentSession_begin rid now customer merchant amt s =
     (if \<not> isAuthenticated s then Inl (Error ''Not authenticated with Yellow Network'')
      else
        (let appDefinition =
               \<lparr>protocol = ''paywiser_biometric_v1'',
                participants = [customer, merchant, walletAddress s],
                weights = [0, 0, 100], quorum = 100, challenge = 0, nonce = now\<rparr>
         in if nullish amt then Inl TypeError
            else
              (let allocations =
                     [\<lparr>participant = customer, asset = ''usdc'', alloc_amount = js_toString amt\<rparr>,
                      \<lparr>participant = merchant, asset = ''usdc'', alloc_amount = ''0''\<rparr>,
                      \<lparr>participant = walletAddress s, asset = ''usdc'', alloc_amount = ''0''\<rparr>];
                   message = \<lparr>req0 = rid, call = CreateAppSessionCall appDefinition allocations\<rparr>
               in Inr (sendRequest message (JStr ''create_app_session'') 60000 s))))"

text \<open>
  The continuation after \<^verbatim>\<open>await this.sendRequest(...)\<close>, for the promise \<open>p\<close> that call
  returned. It has not run while \<open>p\<close> is pending (\<open>None\<close>); it throws what \<open>p\<close> was
  rejected with; otherwise it reads the response. \<open>idNow\<close> and \<open>rnd\<close> are the
  \<^verbatim>\<open>Date.now()\<close> and the \<^verbatim>\<open>Math.random().toString(16).substr(2, 8)\<close> of the synthesized
  session id, \<open>now\<close> the \<^verbatim>\<open>Date.now()\<close> of \<^verbatim>\<open>createdAt\<close>. The error of the last branch
  carries the response, which the source prints into its message.
\<close>

definition register_session ::
  "jsval \<Rightarrow> string \<Rightarrow> string \<Rightarrow> jsval \<Rightarrow> int \<Rightarrow> service \<Rightarrow> service" where
  "register_session sid customer merchant amt now s =
     s\<lparr>heap := heap s @
          [\<lparr>sessionId = sid, customerAddress = customer, merchantAddress = merchant,
            amount = amt, status = Open, createdAt = now, completedAt = None,
            biometricHash = None\<rparr>],
       appSessions := map_set sid (length (heap s)) (appSessions s)\<rparr>"

definition createBiometricPaymentSession_resume ::
  "nat \<Rightarrow> int \<Rightarrow> string \<Rightarrow> int \<Rightarrow> string \<Rightarrow> string \<Rightarrow> jsval \<Rightarrow> service
     \<Rightarrow> (error + jsval \<times> service) option" where
  "createBiometricPaymentSession_resume p idNow rnd now customer merchant amt s =
     (case promise_at s p of
        Pending \<Rightarrow> None
      | Rejected e \<Rightarrow> Some (Inl e)
      | Resolved response \<Rightarrow>
          (if m_method response = JStr ''bu'' \<and> truthy (m_params_balanceUpdates response) then
             (let sid = JStr (''session_'' @ dec_int idNow @ ''_'' @ rnd)
              in Some (Inr (sid, register_session sid customer merchant amt now s)))
           else if truthy (m_params0_app_session_id response) then
             (let sid = m_params0_app_session_id response
              in Some (Inr (sid, register_session sid customer merchant amt now s)))
           else Some (Inl (FailedToCreateSession response))))"

text \<open>
  \<^verbatim>\<open>processBiometricPayment(sessionId, biometricHash, merchantName)\<close> up to its
  \<^verbatim>\<open>await this.sendRequest(closeMessage, 'close_app_session')\<close>: the address of the session
  object it holds and the promise it waits for. An address stored in \<open>appSessions\<close> is
  always an address of \<open>heap\<close> (\<open>registry_ok\<close> below).
\<close>

definition processBiometricPayment_begin ::
  "jsval \<Rightarrow> jsval \<Rightarrow> service \<Rightarrow> error + (nat \<times> nat) \<times> service" where
  "processBiometricPayment_begin rid sid s =
     (case map_of (appSessions s) sid of
        None \<Rightarrow> Inl (Error ''Application session not found'')
      | Some a \<Rightarrow>
          (let session = heap s ! a
           in if nullish (amount session) then Inl TypeError
              else
                (let finalAllocations =
                       [\<lparr>participant = customerAddress session, asset = ''usdc'', alloc_amount = ''0''\<rparr>,
                        \<lparr>participant = merchantAddress session, asset = ''usdc'',
                         alloc_amount = js_toString (amount session)\<rparr>,
                        \<lparr>participant = walletAddress s, asset = ''usdc'', alloc_amount = ''0''\<rparr>];
                     closeMessage = \<lparr>req0 = rid, call = CloseAppSessionCall sid finalAllocations\<rparr>;
                     (p, s') = sendRequest closeMessage (JStr ''close_app_session'') 60000 s
                 in Inr ((a, p), s'))))"

text \<open>
  The continuation after that \<^verbatim>\<open>await\<close>: the three assignments to the session object held
  since before the \<^verbatim>\<open>await\<close>, with \<open>now\<close> the \<^verbatim>\<open>Date.now()\<close> of \<^verbatim>\<open>completedAt\<close>. The
  rewards and the returned summary are computed from the session without changing the
  service and are left out.
\<close>

definition processBiometricPayment_resume ::
  "nat \<Rightarrow> nat \<Rightarrow> jsval \<Rightarrow> int \<Rightarrow> service \<Rightarrow> (error + service) option" where
  "processBiometricPayment_resume a p hash now s =
     (case promise_at s p of
        Pending \<Rightarrow> None
      | Rejected e \<Rightarrow> Some (Inl e)
      | Resolved response \<Rightarrow>
          Some (Inr (s\<lparr>heap := (heap s)[a := (heap s ! a)
                  \<lparr>status := Completed, completedAt := Some now, biometricHash := Some hash\<rparr>]\<rparr>)))"

section \<open>Runs of the service\<close>

text \<open>
  The constructor, and the events that drive the service: calls of its methods, inbound
  messages, timers firing, socket events, and the continuations of the two session methods.
  A session method or query that throws, and a continuation that is not ready, leave the
  service as it is.
\<close>

definition init :: "string \<Rightarrow> string \<Rightarrow> string \<Rightarrow> string \<Rightarrow> string option \<Rightarrow> service" where
  "init wallet sessionKeyAddress name scope application =
     \<lparr>ws = None, isConnected = False, isAuthenticated = False, isAuthAttempted = False,
      sessionExpireTimestamp = None, walletAddress = wallet, sessionKey = Some sessionKeyAddress,
      appName = name, authScope = scope, applicationAddress = application,
      sessionDuration = 3600, requestMap = [], pendingByMethod = [], appSessions = [],
      heap = [], promises = [], timers = [], sent = [], closeCalls = []\<rparr>"

datatype event =
    Connect
  | SocketOpen jsval int
  | SocketClose
  | ReadyState ready_state
  | Authenticate jsval int
  | Message jsval message
  | SendRequest rpc_message jsval nat
  | Timeout nat
  | Disconnect
  | GetChannels jsval
  | GetLedgerBalances jsval
  | CreateBegin jsval int string string jsval
  | CreateResume nat int string int string string jsval
  | PayBegin jsval jsval
  | PayResume nat nat jsval int

fun step :: "rpc_methods \<Rightarrow> event \<Rightarrow> service \<Rightarrow> service" where
  "step R Connect s = connect s"
| "step R (SocketOpen rid now) s = on_open rid now s"
| "step R SocketClose s = on_close s"
| "step R (ReadyState rs) s = set_readyState rs s"
| "step R (Authenticate rid now) s = snd (authenticate rid now s)"
| "step R (Message rid m) s = handleMessage R rid m s"
| "step R (SendRequest m em timeout) s = snd (sendRequest m em timeout s)"
| "step R (Timeout tid) s = fireTimeout tid s"
| "step R Disconnect s = disconnect s"
| "step R (GetChannels rid) s = (case getChannels rid s of Inl e \<Rightarrow> s | Inr r \<Rightarrow> snd r)"
| "step R (GetLedgerBalances rid) s = (case getLedgerBalances rid s of Inl e \<Rightarrow> s | Inr r \<Rightarrow> snd r)"
| "step R (CreateBegin rid now c m amt) s =
     (case createBiometricPaymentSession_begin rid now c m amt s of Inl e \<Rightarrow> s | Inr r \<Rightarrow> snd r)"
| "step R (CreateResume p idNow rnd now c m amt) s =
     (case createBiometricPaymentSession_resume p idNow rnd now c m amt s of
        Some (Inr r) \<Rightarrow> snd r | _ \<Rightarrow> s)"
| "step R (PayBegin rid sid) s =
     (case processBiometricPayment_begin rid sid s of Inl e \<Rightarrow> s | Inr r \<Rightarrow> snd r)"
| "step R (PayResume a p hash now) s =
     (case processBiometricPayment_resume a p hash now s of Some (Inr s') \<Rightarrow> s' | _ \<Rightarrow> s)"

fun run :: "rpc_methods \<Rightarrow> event list \<Rightarrow> service \<Rightarrow> service" where
  "run R [] s = s"
| "run R (ev # evs) s = run R evs (step R ev s)"


definition registry_ok :: "service \<Rightarrow> bool" where
  "registry_ok s = (\<forall>e\<in>set (appSessions s). snd e < length (heap s))"

text \<open>
  Every request that \<^verbatim>\<open>sendRequest\<close> registered left a timer behind, which keeps the
  correlation id and the promise of the request. \<open>tracked\<close> says of a service that each
  such promise exists and, while it is pending, is the promise of the handler that
  \<^verbatim>\<open>requestMap\<close> holds under that id.
\<close>

definition timer_keys :: "service \<Rightarrow> (jsval \<times> nat) list" where
  "timer_keys s = map (\<lambda>t. (t_requestId t, t_promise t)) (timers s)"

definition tracked :: "service \<Rightarrow> bool" where
  "tracked s =
     (\<forall>k\<in>set (timer_keys s).
        snd k < length (promises s) \<and>
        (promises s ! snd k = Pending \<longrightarrow>
           (\<exists>h. map_of (requestMap s) (fst k) = Some h \<and> h_promise h = snd k)))"


text \<open>
  The configuration the constructor fixes, which no event changes; and the events that
  start a handshake, the only ones that write \<^verbatim>\<open>sessionExpireTimestamp\<close>.
\<close>

definition config :: "service \<Rightarrow> string \<times> string option \<times> string \<times> string \<times> string option \<times> int" where
  "config s =
     (walletAddress s, sessionKey s, appName s, authScope s, applicationAddress s, sessionDuration s)"





section \<open>Scenarios\<close>

text \<open>
  Concrete services and messages on which the theorems below are instantiated. The method
  names are those of the protocol. \<open>ex_ready\<close> is a service that has connected and
  completed the handshake; \<open>ex_one\<close> has one request outstanding, \<open>ex_two\<close> and \<open>ex_pair\<close>
  have two (under the ids 0 and 5, and 1 and 2);
  \<open>ex_unnamed\<close> has two requests that were sent without an expected method;
  \<open>ex_connected\<close> has an open socket and has not yet authenticated.
\<close>

definition rpc :: rpc_methods where
  "rpc = \<lparr>AuthChallenge = ''auth_challenge'', AuthVerify = ''auth_verify'', ErrorMethod = ''error''\<rparr>"

definition ex_service :: service where
  "ex_service = init ''0xWALLET'' ''0xSESSIONKEY'' ''PayWiser'' ''paywiser.com'' None"

definition ex_message :: message where
  "ex_message =
     \<lparr>m_requestId = JUndefined, m_reqId = JUndefined, m_req_id = JUndefined, m_req = None,
      m_res = None, m_id = JUndefined, m_method = JUndefined, m_params_method = JUndefined,
      m_name = JUndefined, m_params_success = JUndefined, m_params_balanceUpdates = JUndefined,
      m_params0_app_session_id = JUndefined\<rparr>"

definition ex_handshake :: "event list" where
  "ex_handshake =
     [Connect, ReadyState OPEN, SocketOpen (JNum 100) 1700000000000,
      Message (JNum 101) (ex_message\<lparr>m_method := JStr ''auth_challenge''\<rparr>),
      Message (JNum 102)
        (ex_message\<lparr>m_method := JStr ''auth_verify'', m_params_success := JBool True\<rparr>)]"

definition ex_ready :: service where
  "ex_ready = run rpc ex_handshake ex_service"

definition ex_get_channels :: rpc_message where
  "ex_get_channels = \<lparr>req0 = JNum 1, call = GetChannelsCall ''0xSESSIONKEY''\<rparr>"

definition ex_reply1 :: message where
  "ex_reply1 = ex_message\<lparr>m_requestId := JNum 1, m_method := JStr ''get_channels''\<rparr>"

definition ex_one :: service where
  "ex_one = run rpc [SendRequest ex_get_channels (JStr ''get_channels'') 60000] ex_ready"
















section \<open>Basic facts\<close>

lemma settle_fields [simp]:
  "ws (settle p v s) = ws s"
  "isConnected (settle p v s) = isConnected s"
  "isAuthenticated (settle p v s) = isAuthenticated s"
  "isAuthAttempted (settle p v s) = isAuthAttempted s"
  "sessionExpireTimestamp (settle p v s) = sessionExpireTimestamp s"
  "walletAddress (settle p v s) = walletAddress s"
  "sessionKey (settle p v s) = sessionKey s"
  "appName (settle p v s) = appName s"
  "authScope (settle p v s) = authScope s"
  "applicationAddress (settle p v s) = applicationAddress s"
  "sessionDuration (settle p v s) = sessionDuration s"
  "requestMap (settle p v s) = requestMap s"
  "pendingByMethod (settle p v s) = pendingByMethod s"
  "appSessions (settle p v s) = appSessions s"
  "heap (settle p v s) = heap s"
  "timers (settle p v s) = timers s"
  "sent (settle p v s) = sent s"
  "closeCalls (settle p v s) = closeCalls s"
  "length (promises (settle p v s)) = length (promises s)"
  by (simp_all add: settle_def)

lemma clearTimeout_fields [simp]:
  "ws (clearTimeout t s) = ws s"
  "isConnected (clearTimeout t s) = isConnected s"
  "isAuthenticated (clearTimeout t s) = isAuthenticated s"
  "isAuthAttempted (clearTimeout t s) = isAuthAttempted s"
  "sessionExpireTimestamp (clearTimeout t s) = sessionExpireTimestamp s"
  "walletAddress (clearTimeout t s) = walletAddress s"
  "sessionKey (clearTimeout t s) = sessionKey s"
  "appName (clearTimeout t s) = appName s"
  "authScope (clearTimeout t s) = authScope s"
  "applicationAddress (clearTimeout t s) = applicationAddress s"
  "sessionDuration (clearTimeout t s) = sessionDuration s"
  "requestMap (clearTimeout t s) = requestMap s"
  "pendingByMethod (clearTimeout t s) = pendingByMethod s"
  "appSessions (clearTimeout t s) = appSessions s"
  "heap (clearTimeout t s) = heap s"
  "promises (clearTimeout t s) = promises s"
  "sent (clearTimeout t s) = sent s"
  "closeCalls (clearTimeout t s) = closeCalls s"
  "length (timers (clearTimeout t s)) = length (timers s)"
  by (simp_all add: clearTimeout_def)

lemma promise_at_settle:
  "promise_at (settle p v s) q =
     (if q = p \<and> p < length (promises s) \<and> promises s ! p = Pending then v else promise_at s q)"
  by (auto simp: promise_at_def settle_def)


lemma findIndex_append_hit:
  "(\<forall>x\<in>set pre. \<not> P x) \<Longrightarrow> P e \<Longrightarrow> findIndex P (pre @ e # post) = Some (length pre)"
  by (induction pre) auto

lemma findIndex_SomeD:
  "findIndex P xs = Some i \<Longrightarrow> i < length xs \<and> P (xs ! i) \<and> (\<forall>x\<in>set (take i xs). \<not> P x)"
proof (induction xs arbitrary: i)
  case Nil
  then show ?case by simp
next
  case (Cons a xs)
  show ?case
  proof (cases "P a")
    case True
    with Cons.prems show ?thesis by simp
  next
    case False
    with Cons.prems obtain j where j: "findIndex P xs = Some j" "i = Suc j"
      by (auto split: option.splits)
    from Cons.IH[OF j(1)] False j(2) show ?thesis by auto
  qed
qed

lemma splice1_append: "splice1 (length pre) (pre @ e # post) = pre @ post"
  by (simp add: splice1_def)

lemma map_of_map_set: "map_of (map_set k v m) k' = (if k' = k then Some v else map_of m k')"
  by (induction m) auto

lemma map_of_map_delete: "map_of (map_delete k m) k' = (if k' = k then None else map_of m k')"
  by (induction m) (auto simp: map_delete_def)

lemma settle_update_pendingByMethod:
  "settle p v (s\<lparr>pendingByMethod := x\<rparr>) = (settle p v s)\<lparr>pendingByMethod := x\<rparr>"
  by (simp add: settle_def)

lemma clearTimeout_update_pendingByMethod:
  "clearTimeout t (s\<lparr>pendingByMethod := x\<rparr>) = (clearTimeout t s)\<lparr>pendingByMethod := x\<rparr>"
  by (simp add: clearTimeout_def)

lemma promise_at_clearTimeout [simp]: "promise_at (clearTimeout t s) q = promise_at s q"
  by (simp add: promise_at_def)

lemma sendRequest_open:
  "ws s = Some OPEN \<Longrightarrow>
   sendRequest msg em t s =
     (length (promises s),
      s\<lparr>promises := promises s @ [Pending],
        timers := timers s @
          [\<lparr>t_status = Armed, t_requestId = req0 msg, t_expectedMethod = em,
            t_promise = length (promises s), t_delay = t\<rparr>],
        requestMap := map_set (req0 msg)
          \<lparr>h_promise = length (promises s), h_timeoutId = length (timers s),
           h_expectedMethod = em\<rparr> (requestMap s),
        pendingByMethod := pendingByMethod s @
          [\<lparr>p_method = normalizeMethod em, p_requestId = req0 msg,
            p_promise = length (promises s), p_timeoutId = length (timers s)\<rparr>],
        sent := sent s @ [msg]\<rparr>)"
  by (simp add: sendRequest_def Let_def)

lemma map_has_iff: "map_has k m \<longleftrightarrow> map_of m k \<noteq> None"
  by (simp add: map_has_def)

lemma resolve_tier1:
  assumes "truthy (inferredRequestId m)" and "map_of (requestMap s) (inferredRequestId m) = Some h"
  shows "resolvePendingRequest m s =
           (True, (handler_resolve h m s)\<lparr>requestMap := map_delete (inferredRequestId m) (requestMap s)\<rparr>)"
  using assms by (simp add: resolvePendingRequest_def Let_def)

lemma resolve_tier2:
  assumes "\<not> (truthy (inferredRequestId m) \<and> map_has (inferredRequestId m) (requestMap s))"
    and "responseMethod m \<noteq> []"
    and "pendingByMethod s = pre @ e # post"
    and "p_method e = responseMethod m"
    and "\<forall>x\<in>set pre. p_method x \<noteq> responseMethod m"
  shows "resolvePendingRequest m s =
           (True, (settle (p_promise e) (Resolved m) (clearTimeout (p_timeoutId e) s))
                    \<lparr>pendingByMethod := pre @ post\<rparr>)"
proof -
  have idx: "findIndex (\<lambda>p. p_method p = responseMethod m) (pendingByMethod s) = Some (length pre)"
    using assms(3,4,5) by (simp add: findIndex_append_hit)
  have no1: "(if truthy (inferredRequestId m) then map_of (requestMap s) (inferredRequestId m) else None) = None"
    using assms(1) by (auto simp: map_has_iff)
  show ?thesis
    unfolding resolvePendingRequest_def Let_def no1
    using assms(2,3) idx
    by (simp add: splice1_append settle_update_pendingByMethod clearTimeout_update_pendingByMethod)
qed



lemma normalize_examples:
  "normalizeMethod (JStr ''get_channels'') = ''getchannels''"
  "normalizeMethod (JStr ''get_ledger_balances'') = ''getledgerbalances''"
  "normalizeMethod (JStr ''create_app_session'') = ''createappsession''"
  "normalizeMethod (JStr ''close_app_session'') = ''closeappsession''"
  "normalizeMethod JUndefined = []"
  by code_simp+

lemma ex_ready_fields:
  "ws ex_ready = Some OPEN" "isAuthenticated ex_ready" "requestMap ex_ready = []"
  "pendingByMethod ex_ready = []" "promises ex_ready = []" "timers ex_ready = []"
  "appSessions ex_ready = []" "heap ex_ready = []" "walletAddress ex_ready = ''0xWALLET''"
  by code_simp+



lemma ex_one_fields:
  "ws ex_one = Some OPEN"
  "requestMap ex_one =
     [(JNum 1, \<lparr>h_promise = 0, h_timeoutId = 0, h_expectedMethod = JStr ''get_channels''\<rparr>)]"
  "pendingByMethod ex_one =
     [\<lparr>p_method = ''getchannels'', p_requestId = JNum 1, p_promise = 0, p_timeoutId = 0\<rparr>]"
  "promises ex_one = [Pending]"
  "timers ex_one =
     [\<lparr>t_status = Armed, t_requestId = JNum 1, t_expectedMethod = JStr ''get_channels'',
       t_promise = 0, t_delay = 60000\<rparr>]"
  by (simp_all add: ex_one_def ex_get_channels_def sendRequest_open ex_ready_fields normalize_examples)

lemma ex_message_ids:
  "inferredRequestId (ex_message\<lparr>m_requestId := r\<rparr>) = (if nullish r then JUndefined else r)"
  "inferredRequestId ex_message = JUndefined"
  "inferredRequestId (ex_message\<lparr>m_method := x\<rparr>) = JUndefined"
  by (simp_all add: ex_message_def inferredRequestId_def coalesce_def)

lemma ex_message_methods:
  "responseMethod (ex_message\<lparr>m_requestId := r\<rparr>) = []"
  "responseMethod ex_message = []"
  "responseMethod (ex_message\<lparr>m_method := x\<rparr>) = normalizeMethod x"
  by (simp_all add: ex_message_def responseMethod_def js_or_def normalize_examples normalizeMethod_def)

lemma sendRequest_frame [simp]:
  "ws (snd (sendRequest msg em t s)) = ws s"
  "heap (snd (sendRequest msg em t s)) = heap s"
  "appSessions (snd (sendRequest msg em t s)) = appSessions s"
  "sessionExpireTimestamp (snd (sendRequest msg em t s)) = sessionExpireTimestamp s"
  "sessionDuration (snd (sendRequest msg em t s)) = sessionDuration s"
  "walletAddress (snd (sendRequest msg em t s)) = walletAddress s"
  "closeCalls (snd (sendRequest msg em t s)) = closeCalls s"
  by (simp_all add: sendRequest_def Let_def)

lemma resolvePendingRequest_frame [simp]:
  "ws (snd (resolvePendingRequest m s)) = ws s"
  "heap (snd (resolvePendingRequest m s)) = heap s"
  "appSessions (snd (resolvePendingRequest m s)) = appSessions s"
  "sessionExpireTimestamp (snd (resolvePendingRequest m s)) = sessionExpireTimestamp s"
  "sessionDuration (snd (resolvePendingRequest m s)) = sessionDuration s"
  "sent (snd (resolvePendingRequest m s)) = sent s"
  by (simp_all add: resolvePendingRequest_def Let_def handler_resolve_def split: option.splits)


lemma fireTimeout_frame [simp]:
  "ws (fireTimeout t s) = ws s"
  "heap (fireTimeout t s) = heap s"
  "appSessions (fireTimeout t s) = appSessions s"
  "sessionExpireTimestamp (fireTimeout t s) = sessionExpireTimestamp s"
  "sessionDuration (fireTimeout t s) = sessionDuration s"
  "sent (fireTimeout t s) = sent s"
  by (simp_all add: fireTimeout_def Let_def split: option.splits)


lemma handler_reject_frame [simp]:
  "ws (handler_reject h e s) = ws s"
  "heap (handler_reject h e s) = heap s"
  "appSessions (handler_reject h e s) = appSessions s"
  "sessionExpireTimestamp (handler_reject h e s) = sessionExpireTimestamp s"
  "sessionDuration (handler_reject h e s) = sessionDuration s"
  "requestMap (handler_reject h e s) = requestMap s"
  "pendingByMethod (handler_reject h e s) = pendingByMethod s"
  "sent (handler_reject h e s) = sent s"
  "closeCalls (handler_reject h e s) = closeCalls s"
  "isConnected (handler_reject h e s) = isConnected s"
  by (simp_all add: handler_reject_def)

lemma reject_all_frame [simp]:
  "ws (reject_all es s) = ws s"
  "heap (reject_all es s) = heap s"
  "appSessions (reject_all es s) = appSessions s"
  "sessionExpireTimestamp (reject_all es s) = sessionExpireTimestamp s"
  "sessionDuration (reject_all es s) = sessionDuration s"
  "pendingByMethod (reject_all es s) = pendingByMethod s"
  "sent (reject_all es s) = sent s"
  "closeCalls (reject_all es s) = closeCalls s"
  by (induction es s rule: reject_all.induct; simp)+


lemma disconnect_frame [simp]:
  "heap (disconnect s) = heap s"
  "sessionExpireTimestamp (disconnect s) = sessionExpireTimestamp s"
  "sessionDuration (disconnect s) = sessionDuration s"
  "ws (disconnect s) = None"
  "appSessions (disconnect s) = []"
  "sent (disconnect s) = sent s"
  by (simp_all add: disconnect_def Let_def)


lemma authenticate_frame [simp]:
  "ws (snd (authenticate rid now s)) = ws s"
  "heap (snd (authenticate rid now s)) = heap s"
  "appSessions (snd (authenticate rid now s)) = appSessions s"
  "requestMap (snd (authenticate rid now s)) = requestMap s"
  "sessionDuration (snd (authenticate rid now s)) = sessionDuration s"
  by (simp_all add: authenticate_def Let_def split: option.splits)

lemma handleAuthChallenge_frame [simp]:
  "ws (snd (handleAuthChallenge rid ch s)) = ws s"
  "heap (snd (handleAuthChallenge rid ch s)) = heap s"
  "appSessions (snd (handleAuthChallenge rid ch s)) = appSessions s"
  "requestMap (snd (handleAuthChallenge rid ch s)) = requestMap s"
  "sessionDuration (snd (handleAuthChallenge rid ch s)) = sessionDuration s"
  "sessionExpireTimestamp (snd (handleAuthChallenge rid ch s)) = sessionExpireTimestamp s"
  by (simp_all add: handleAuthChallenge_def Let_def)

lemma handleMessage_frame [simp]:
  "ws (handleMessage R rid m s) = ws s"
  "heap (handleMessage R rid m s) = heap s"
  "appSessions (handleMessage R rid m s) = appSessions s"
  "sessionDuration (handleMessage R rid m s) = sessionDuration s"
  "sessionExpireTimestamp (handleMessage R rid m s) = sessionExpireTimestamp s"
  by (simp_all add: handleMessage_def Let_def handleAuthSuccess_def split_beta split: option.splits)



lemma connect_frame [simp]:
  "heap (connect s) = heap s"
  "appSessions (connect s) = appSessions s"
  "requestMap (connect s) = requestMap s"
  "sessionDuration (connect s) = sessionDuration s"
  "sessionExpireTimestamp (connect s) = sessionExpireTimestamp s"
  "ws (connect s) = Some CONNECTING"
  by (simp_all add: connect_def Let_def)

lemma on_open_frame [simp]:
  "ws (on_open rid now s) = ws s"
  "heap (on_open rid now s) = heap s"
  "appSessions (on_open rid now s) = appSessions s"
  "requestMap (on_open rid now s) = requestMap s"
  "sessionDuration (on_open rid now s) = sessionDuration s"
  by (simp_all add: on_open_def)

lemma on_close_frame [simp]:
  "ws (on_close s) = ws s"
  "heap (on_close s) = heap s"
  "appSessions (on_close s) = appSessions s"
  "requestMap (on_close s) = requestMap s"
  "sessionDuration (on_close s) = sessionDuration s"
  "sessionExpireTimestamp (on_close s) = sessionExpireTimestamp s"
  by (simp_all add: on_close_def)

lemma set_readyState_frame [simp]:
  "heap (set_readyState rs s) = heap s"
  "appSessions (set_readyState rs s) = appSessions s"
  "requestMap (set_readyState rs s) = requestMap s"
  "sessionDuration (set_readyState rs s) = sessionDuration s"
  "sessionExpireTimestamp (set_readyState rs s) = sessionExpireTimestamp s"
  "ws (set_readyState rs s) = None \<longleftrightarrow> ws s = None"
  by (simp_all add: set_readyState_def)

lemma register_session_frame [simp]:
  "ws (register_session sid c m amt now s) = ws s"
  "requestMap (register_session sid c m amt now s) = requestMap s"
  "sessionDuration (register_session sid c m amt now s) = sessionDuration s"
  "sessionExpireTimestamp (register_session sid c m amt now s) = sessionExpireTimestamp s"
  "sent (register_session sid c m amt now s) = sent s"
  by (simp_all add: register_session_def)





section \<open>Sending on a closed socket\<close>

text \<open>
  \<^bold>\<open>C8\<close>. A call of \<^verbatim>\<open>sendRequest\<close> made while the socket is absent, or is not in the
  \<^verbatim>\<open>OPEN\<close> state, returns a promise that is already rejected with the error
  "WebSocket not connected". Nothing else happens: the service afterwards is the service
  before with that one rejected promise added, so no message is sent, no timer is armed,
  and \<^verbatim>\<open>requestMap\<close> and \<^verbatim>\<open>pendingByMethod\<close> are unchanged.
\<close>

theorem sendRequest_not_connected:
  assumes "ws s = None \<or> (\<exists>rs. ws s = Some rs \<and> rs \<noteq> OPEN)"
  shows "sendRequest message expectedMethod timeout s =
           (length (promises s),
            s\<lparr>promises := promises s @ [Rejected (Error ''WebSocket not connected'')]\<rparr>)
         \<and> promise_at (snd (sendRequest message expectedMethod timeout s))
              (fst (sendRequest message expectedMethod timeout s))
             = Rejected (Error ''WebSocket not connected'')
         \<and> sent (snd (sendRequest message expectedMethod timeout s)) = sent s
         \<and> requestMap (snd (sendRequest message expectedMethod timeout s)) = requestMap s
         \<and> pendingByMethod (snd (sendRequest message expectedMethod timeout s)) = pendingByMethod s
         \<and> timers (snd (sendRequest message expectedMethod timeout s)) = timers s"
proof -
  from assms have closed: "ws s = None \<or> ws s \<noteq> Some OPEN" by auto
  have eq: "sendRequest message expectedMethod timeout s =
           (length (promises s),
            s\<lparr>promises := promises s @ [Rejected (Error ''WebSocket not connected'')]\<rparr>)"
    using closed by (auto simp: sendRequest_def settle_def Let_def nth_append)
  show ?thesis unfolding eq by (simp add: promise_at_def)
qed

text \<open>The same on a socket that is still connecting, with one request already outstanding.\<close>

theorem sendRequest_not_connected_witness:
  "(ws (set_readyState CONNECTING ex_one) = None \<or>
      (\<exists>rs. ws (set_readyState CONNECTING ex_one) = Some rs \<and> rs \<noteq> OPEN))
   \<and> promise_at (snd (sendRequest ex_get_channels (JStr ''get_channels'') 60000
                        (set_readyState CONNECTING ex_one)))
        (fst (sendRequest ex_get_channels (JStr ''get_channels'') 60000
                (set_readyState CONNECTING ex_one)))
       = Rejected (Error ''WebSocket not connected'')
   \<and> sent (snd (sendRequest ex_get_channels (JStr ''get_channels'') 60000
                  (set_readyState CONNECTING ex_one)))
       = sent (set_readyState CONNECTING ex_one)
   \<and> requestMap (snd (sendRequest ex_get_channels (JStr ''get_channels'') 60000
                        (set_readyState CONNECTING ex_one)))
       = [(JNum 1, \<lparr>h_promise = 0, h_timeoutId = 0, h_expectedMethod = JStr ''get_channels''\<rparr>)]"
proof -
  have h: "ws (set_readyState CONNECTING ex_one) = None \<or>
      (\<exists>rs. ws (set_readyState CONNECTING ex_one) = Some rs \<and> rs \<noteq> OPEN)"
    by (simp add: set_readyState_def ex_one_fields)
  have rm: "requestMap (set_readyState CONNECTING ex_one) =
      [(JNum 1, \<lparr>h_promise = 0, h_timeoutId = 0, h_expectedMethod = JStr ''get_channels''\<rparr>)]"
    by (simp add: ex_one_fields)
  note T = sendRequest_not_connected[OF h, of ex_get_channels "JStr ''get_channels''" 60000]
  have c2: "promise_at (snd (sendRequest ex_get_channels (JStr ''get_channels'') 60000
                        (set_readyState CONNECTING ex_one)))
        (fst (sendRequest ex_get_channels (JStr ''get_channels'') 60000
                (set_readyState CONNECTING ex_one)))
       = Rejected (Error ''WebSocket not connected'')"
    by (rule T[THEN conjunct2, THEN conjunct1])
  have c3: "sent (snd (sendRequest ex_get_channels (JStr ''get_channels'') 60000
                  (set_readyState CONNECTING ex_one)))
       = sent (set_readyState CONNECTING ex_one)"
    by (rule T[THEN conjunct2, THEN conjunct2, THEN conjunct1])
  have c4: "requestMap (snd (sendRequest ex_get_channels (JStr ''get_channels'') 60000
                        (set_readyState CONNECTING ex_one)))
       = [(JNum 1, \<lparr>h_promise = 0, h_timeoutId = 0, h_expectedMethod = JStr ''get_channels''\<rparr>)]"
    using T[THEN conjunct2, THEN conjunct2, THEN conjunct2, THEN conjunct1] rm by simp
  show ?thesis by (rule conjI[OF h conjI[OF c2 conjI[OF c3 c4]]])
qed

section \<open>Matching an inbound message\<close>

text \<open>
  What the first tier leaves behind. On an open socket, a request sent under a truthy id
  and answered by a message that carries that id is resolved with that message and its key
  leaves \<^verbatim>\<open>requestMap\<close>; the entry pushed onto \<^verbatim>\<open>pendingByMethod\<close> stays where it was.
\<close>

lemma id_match_never_purges_pendingByMethod:
  assumes "ws s = Some OPEN" and "truthy (req0 msg)" and "inferredRequestId m = req0 msg"
  shows "(let (p, s1) = sendRequest msg em t s;
              (b, s2) = resolvePendingRequest m s1
          in b \<and> promise_at s2 p = Resolved m \<and> map_of (requestMap s2) (req0 msg) = None \<and>
             pendingByMethod s2 = pendingByMethod s @
               [\<lparr>p_method = normalizeMethod em, p_requestId = req0 msg, p_promise = p,
                 p_timeoutId = length (timers s)\<rparr>])"
  using assms
  by (simp add: sendRequest_def resolvePendingRequest_def Let_def map_of_map_set
      handler_resolve_def promise_at_settle map_of_map_delete promise_at_def nth_append
      settle_def clearTimeout_def)

text \<open>
  \<^bold>\<open>C1\<close>. Correlation correctness asks that, with a single outstanding request, a
  response that echoes its correlation id resolves the promise with exactly that response
  and removes the pending record from both \<^verbatim>\<open>requestMap\<close> and \<^verbatim>\<open>pendingByMethod\<close>.
  What the service does, on the request
  \<open>ex_get_channels\<close> (id 1, expected method \<^verbatim>\<open>get_channels\<close>) sent by a service with nothing
  outstanding and answered by \<open>ex_reply1\<close> (\<^verbatim>\<open>requestId\<close> 1): the promise is resolved with
  the response and \<^verbatim>\<open>requestMap\<close> is empty again, but \<^verbatim>\<open>pendingByMethod\<close> still holds
  the entry of the request.
\<close>

theorem id_match_leaves_pendingByMethod_entry:
  "(let (p, s1) = sendRequest ex_get_channels (JStr ''get_channels'') 60000 ex_ready;
        (b, s2) = resolvePendingRequest ex_reply1 s1
    in requestMap ex_ready = [] \<and> pendingByMethod ex_ready = [] \<and>
       inferredRequestId ex_reply1 = req0 ex_get_channels \<and>
       b \<and> promise_at s2 p = Resolved ex_reply1 \<and> requestMap s2 = [] \<and>
       pendingByMethod s2 =
         [\<lparr>p_method = ''getchannels'', p_requestId = JNum 1, p_promise = p, p_timeoutId = 0\<rparr>])"
proof -
  have id: "inferredRequestId ex_reply1 = req0 ex_get_channels"
    by (simp add: ex_reply1_def ex_get_channels_def ex_message_def inferredRequestId_def coalesce_def)
  have tr: "truthy (req0 ex_get_channels)" by (simp add: ex_get_channels_def)
  have rm: "requestMap (snd (resolvePendingRequest ex_reply1
              (snd (sendRequest ex_get_channels (JStr ''get_channels'') 60000 ex_ready)))) = []"
    using tr id
    by (simp add: sendRequest_open ex_ready_fields resolve_tier1 map_delete_def)
  from id_match_never_purges_pendingByMethod[OF ex_ready_fields(1) tr id,
      of "JStr ''get_channels''" 60000] rm id
  show ?thesis
    by (simp add: ex_ready_fields normalize_examples split_beta Let_def ex_get_channels_def)
qed

text \<open>
  What the entry left behind does later. A second \<^verbatim>\<open>get_channels\<close> request (id 2) is
  sent, and its answer arrives without an id. The second tier finds the stale entry of the
  first request first: the call reports a match, the first promise stays as it was, and the
  second request is still pending, with its own entry now the only one.
\<close>

lemma stale_entry_takes_later_reply:
  "(let (pA, s1) = sendRequest ex_get_channels (JStr ''get_channels'') 60000 ex_ready;
        (b1, s2) = resolvePendingRequest ex_reply1 s1;
        (pB, s3) = sendRequest (ex_get_channels\<lparr>req0 := JNum 2\<rparr>) (JStr ''get_channels'') 60000 s2;
        reply = ex_message\<lparr>m_method := JStr ''get_channels''\<rparr>;
        (b2, s4) = resolvePendingRequest reply s3
    in b2 \<and> promise_at s4 pA = Resolved ex_reply1 \<and> promise_at s4 pB = Pending \<and>
       map p_promise (pendingByMethod s4) = [pB])"
proof -
  have id: "inferredRequestId ex_reply1 = JNum 1"
    by (simp add: ex_reply1_def ex_message_def inferredRequestId_def coalesce_def)
  show ?thesis
    by (simp add: sendRequest_open ex_ready_fields resolve_tier1 id ex_message_ids
        ex_message_methods ex_get_channels_def handler_resolve_def normalize_examples
        map_delete_def resolve_tier2[where pre = "[]"] map_has_iff
        promise_at_def settle_def clearTimeout_def Let_def)
qed




section \<open>Guards of the session methods and queries\<close>

text \<open>
  \<^bold>\<open>C9\<close>. For a session id that is not a key of \<^verbatim>\<open>appSessions\<close>,
  \<^verbatim>\<open>processBiometricPayment\<close> throws "Application session not found" before it builds or
  sends a close request; the service, and with it the registry, is unchanged.
\<close>

theorem processBiometricPayment_unknown_session:
  assumes "sid \<notin> fst ` set (appSessions s)"
  shows "processBiometricPayment_begin rid sid s = Inl (Error ''Application session not found'')
         \<and> step R (PayBegin rid sid) s = s"
proof -
  from assms have "map_of (appSessions s) sid = None" by (simp add: map_of_eq_None_iff)
  then show ?thesis by (simp add: processBiometricPayment_begin_def)
qed

theorem processBiometricPayment_unknown_session_witness:
  "JStr ''session_x'' \<notin> fst ` set (appSessions ex_one)
   \<and> processBiometricPayment_begin (JNum 9) (JStr ''session_x'') ex_one
       = Inl (Error ''Application session not found'')
   \<and> step rpc (PayBegin (JNum 9) (JStr ''session_x'')) ex_one = ex_one"
proof -
  have h: "JStr ''session_x'' \<notin> fst ` set (appSessions ex_one)"
    by (simp add: ex_one_def ex_ready_fields)
  from processBiometricPayment_unknown_session[OF h, of "JNum 9" rpc] h
  show ?thesis by (intro conjI) simp_all
qed

text \<open>
  \<^bold>\<open>C10\<close>. While \<^verbatim>\<open>isAuthenticated\<close> is false, \<^verbatim>\<open>getChannels\<close>, \<^verbatim>\<open>getLedgerBalances\<close>
  and \<^verbatim>\<open>createBiometricPaymentSession\<close> each throw "Not authenticated with Yellow Network"
  before anything is built or sent: the service is unchanged, so no pending request is
  registered and no session is created.
\<close>

theorem not_authenticated_throws:
  assumes "\<not> isAuthenticated s"
  shows "getChannels rid s = Inl (Error ''Not authenticated with Yellow Network'')
       \<and> getLedgerBalances rid s = Inl (Error ''Not authenticated with Yellow Network'')
       \<and> createBiometricPaymentSession_begin rid now customer merchant amt s
           = Inl (Error ''Not authenticated with Yellow Network'')
       \<and> step R (GetChannels rid) s = s
       \<and> step R (GetLedgerBalances rid) s = s
       \<and> step R (CreateBegin rid now customer merchant amt) s = s"
  using assms
  by (simp add: getChannels_def getLedgerBalances_def createBiometricPaymentSession_begin_def)

theorem not_authenticated_throws_witness:
  "\<not> isAuthenticated ex_service
   \<and> getChannels (JNum 1) ex_service = Inl (Error ''Not authenticated with Yellow Network'')
   \<and> getLedgerBalances (JNum 1) ex_service = Inl (Error ''Not authenticated with Yellow Network'')
   \<and> createBiometricPaymentSession_begin (JNum 1) 1700000000000 ''0xAAA'' ''0xBBB'' (JStr ''10.00'')
        ex_service = Inl (Error ''Not authenticated with Yellow Network'')
   \<and> step rpc (GetChannels (JNum 1)) ex_service = ex_service
   \<and> step rpc (GetLedgerBalances (JNum 1)) ex_service = ex_service
   \<and> step rpc (CreateBegin (JNum 1) 1700000000000 ''0xAAA'' ''0xBBB'' (JStr ''10.00'')) ex_service
       = ex_service"
proof -
  have h: "\<not> isAuthenticated ex_service" by (simp add: ex_service_def init_def)
  from not_authenticated_throws[OF h, of "JNum 1" 1700000000000 "''0xAAA''" "''0xBBB''" "JStr ''10.00''" rpc]
  show ?thesis using h by (intro conjI) simp_all
qed

section \<open>A request times out\<close>








section \<open>Disconnecting\<close>




lemma is_pending_update_requestMap [simp]:
  "is_pending (s\<lparr>requestMap := x\<rparr>) q = is_pending s q"
  by (simp add: is_pending_def)

lemma promise_at_update_requestMap [simp]:
  "promise_at (s\<lparr>requestMap := x\<rparr>) q = promise_at s q"
  by (simp add: promise_at_def)





text \<open>
  While no correlation id is used twice, every run keeps the service \<open>tracked\<close>: an entry
  of \<^verbatim>\<open>requestMap\<close> is deleted only together with the settling of its promise (first
  tier, timeout, disconnect), and is overwritten only by a request under the same id.
\<close>

lemma tracked_cong:
  "timer_keys s' = timer_keys s \<Longrightarrow> requestMap s' = requestMap s \<Longrightarrow> promises s' = promises s \<Longrightarrow>
   tracked s' = tracked s"
  by (simp add: tracked_def)

lemma timer_keys_clearTimeout [simp]: "timer_keys (clearTimeout t s) = timer_keys s"
  by (simp add: timer_keys_def clearTimeout_def map_update list_update_same_conv)

lemma timer_keys_settle [simp]: "timer_keys (settle p v s) = timer_keys s"
  by (simp add: timer_keys_def)

lemma tracked_clearTimeout [simp]: "tracked (clearTimeout t s) = tracked s"
  by (rule tracked_cong) simp_all

lemma tracked_update_pendingByMethod [simp]: "tracked (s\<lparr>pendingByMethod := x\<rparr>) = tracked s"
  by (rule tracked_cong) (simp_all add: timer_keys_def)


lemma not_pending_settle:
  "v \<noteq> Pending \<Longrightarrow> p < length (promises s) \<Longrightarrow> promises (settle p v s) ! p \<noteq> Pending"
  by (simp add: settle_def)






lemma timer_keys_fireTimeout [simp]: "timer_keys (fireTimeout tA s) = timer_keys s"
  by (simp add: fireTimeout_def Let_def timer_keys_def map_update list_update_same_conv
      split: option.splits)



lemma timer_keys_handler_reject [simp]: "timer_keys (handler_reject h e s) = timer_keys s"
  by (simp add: handler_reject_def)

lemma timer_keys_update_requestMap [simp]: "timer_keys (s\<lparr>requestMap := x\<rparr>) = timer_keys s"
  by (simp add: timer_keys_def)

lemma timer_keys_reject_all [simp]: "timer_keys (reject_all es s) = timer_keys s"
proof (induction es arbitrary: s)
  case Nil
  then show ?case by simp
next
  case (Cons a es)
  obtain requestId h where a: "a = (requestId, h)" by (cases a)
  show ?case by (simp add: a Cons.IH)
qed

lemma length_promises_reject_all [simp]: "length (promises (reject_all es s)) = length (promises s)"
proof (induction es arbitrary: s)
  case Nil
  then show ?case by simp
next
  case (Cons a es)
  obtain requestId h where a: "a = (requestId, h)" by (cases a)
  show ?case by (simp add: a Cons.IH handler_reject_def)
qed


lemma authenticate_correlator [simp]:
  "timers (snd (authenticate rid now s)) = timers s"
  "promises (snd (authenticate rid now s)) = promises s"
  by (simp_all add: authenticate_def Let_def split: option.splits)

lemma handleAuthChallenge_correlator [simp]:
  "timers (snd (handleAuthChallenge rid ch s)) = timers s"
  "promises (snd (handleAuthChallenge rid ch s)) = promises s"
  by (simp_all add: handleAuthChallenge_def Let_def)

lemma tracked_update_other [simp]:
  "tracked (s\<lparr>isAuthAttempted := b\<rparr>) = tracked s"
  "tracked (s\<lparr>isAuthenticated := b\<rparr>) = tracked s"
  "tracked (s\<lparr>isConnected := b\<rparr>) = tracked s"
  "tracked (s\<lparr>heap := hp\<rparr>) = tracked s"
  "tracked (s\<lparr>appSessions := reg\<rparr>) = tracked s"
  "tracked (s\<lparr>ws := w\<rparr>) = tracked s"
  "tracked (s\<lparr>closeCalls := cs\<rparr>) = tracked s"
  by (rule tracked_cong; simp add: timer_keys_def)+

lemma timer_keys_update_other [simp]:
  "timer_keys (s\<lparr>isAuthAttempted := b\<rparr>) = timer_keys s"
  "timer_keys (s\<lparr>isAuthenticated := b\<rparr>) = timer_keys s"
  "timer_keys (s\<lparr>isConnected := b\<rparr>) = timer_keys s"
  "timer_keys (s\<lparr>heap := hp\<rparr>) = timer_keys s"
  "timer_keys (s\<lparr>appSessions := reg\<rparr>) = timer_keys s"
  "timer_keys (s\<lparr>ws := w\<rparr>) = timer_keys s"
  "timer_keys (s\<lparr>closeCalls := cs\<rparr>) = timer_keys s"
  "timer_keys (s\<lparr>pendingByMethod := x\<rparr>) = timer_keys s"
  by (simp_all add: timer_keys_def)

lemma tracked_authenticate [simp]: "tracked (snd (authenticate rid now s)) = tracked s"
  by (rule tracked_cong) (simp_all add: timer_keys_def)

lemma tracked_handleAuthChallenge [simp]: "tracked (snd (handleAuthChallenge rid ch s)) = tracked s"
  by (rule tracked_cong) (simp_all add: timer_keys_def)

lemma timer_keys_resolvePendingRequest [simp]:
  "timer_keys (snd (resolvePendingRequest m s)) = timer_keys s"
  by (simp add: resolvePendingRequest_def Let_def handler_resolve_def split: option.splits)

lemma timer_keys_auth [simp]:
  "timer_keys (snd (authenticate rid now s)) = timer_keys s"
  "timer_keys (snd (handleAuthChallenge rid ch s)) = timer_keys s"
  by (simp_all add: timer_keys_def)

lemma timer_keys_handleMessage [simp]: "timer_keys (handleMessage R rid m s) = timer_keys s"
  by (simp add: handleMessage_def Let_def handleAuthSuccess_def split_beta split: option.splits)


lemma timer_keys_disconnect [simp]: "timer_keys (disconnect s) = timer_keys s"
  by (simp add: disconnect_def Let_def)








section \<open>The expiry of a handshake\<close>









text \<open>No event changes the configuration, and only the start of a handshake writes the expiry.\<close>

lemma config_settle [simp]: "config (settle p v s) = config s"
  by (simp add: config_def)

lemma config_clearTimeout [simp]: "config (clearTimeout t s) = config s"
  by (simp add: config_def)

lemma config_sendRequest [simp]: "config (snd (sendRequest msg em t s)) = config s"
  by (simp add: sendRequest_def Let_def config_def)

lemma config_resolvePendingRequest [simp]: "config (snd (resolvePendingRequest m s)) = config s"
  by (simp add: resolvePendingRequest_def Let_def handler_resolve_def config_def split: option.splits)

lemma config_fireTimeout [simp]: "config (fireTimeout t s) = config s"
  by (simp add: fireTimeout_def Let_def config_def split: option.splits)

lemma config_reject_all [simp]: "config (reject_all es s) = config s"
proof (induction es arbitrary: s)
  case Nil
  then show ?case by simp
next
  case (Cons a es)
  obtain requestId h where a: "a = (requestId, h)" by (cases a)
  show ?case by (simp add: a Cons.IH) (simp add: config_def handler_reject_def)
qed

lemma config_disconnect [simp]: "config (disconnect s) = config s"
proof -
  have "config (disconnect s) = (if ws s \<noteq> None then config (reject_all (requestMap s) s) else config s)"
    by (simp add: disconnect_def Let_def config_def)
  then show ?thesis by simp
qed

lemma config_authenticate [simp]: "config (snd (authenticate rid now s)) = config s"
  by (simp add: authenticate_def Let_def config_def split: option.splits)

lemma config_handleAuthChallenge [simp]: "config (snd (handleAuthChallenge rid ch s)) = config s"
  by (simp add: handleAuthChallenge_def Let_def config_def)

lemma config_update_flags [simp]:
  "config (s\<lparr>isAuthAttempted := b\<rparr>) = config s"
  "config (s\<lparr>isAuthenticated := b\<rparr>) = config s"
  "config (s\<lparr>isConnected := b\<rparr>) = config s"
  by (simp_all add: config_def)

lemma config_handleMessage [simp]: "config (handleMessage R rid m s) = config s"
  by (simp add: handleMessage_def Let_def handleAuthSuccess_def split_beta split: option.splits)







lemma resolvePendingRequest_flags [simp]:
  "isAuthAttempted (snd (resolvePendingRequest m s)) = isAuthAttempted s"
  "isAuthenticated (snd (resolvePendingRequest m s)) = isAuthenticated s"
  by (simp_all add: resolvePendingRequest_def Let_def handler_resolve_def split: option.splits)







section \<open>Sessions\<close>





lemma createResume_heap:
  "createBiometricPaymentSession_resume p idNow rnd now c m amt s = Some (Inr (sid, s')) \<Longrightarrow>
   heap s' = heap s @
     [\<lparr>sessionId = sid, customerAddress = c, merchantAddress = m, amount = amt, status = Open,
       createdAt = now, completedAt = None, biometricHash = None\<rparr>]
   \<and> appSessions s' = map_set sid (length (heap s)) (appSessions s)"
  by (auto simp: createBiometricPaymentSession_resume_def Let_def register_session_def
      split: promise_state.splits if_splits)

lemma payResume_heap:
  "processBiometricPayment_resume a p hash now s = Some (Inr s') \<Longrightarrow>
   heap s' = (heap s)[a := (heap s ! a)
                \<lparr>status := Completed, completedAt := Some now, biometricHash := Some hash\<rparr>]
   \<and> appSessions s' = appSessions s"
  by (auto simp: processBiometricPayment_resume_def split: promise_state.splits)



lemma set_map_set: "set (map_set k v xs) \<subseteq> insert (k, v) (set xs)"
  by (induction xs) (auto split: if_splits)

lemma registry_ok_step: "registry_ok s \<Longrightarrow> registry_ok (step R ev s)"
proof (cases ev)
  case (CreateBegin rid now c m amt)
  assume "registry_ok s"
  then show ?thesis using CreateBegin
    by (simp add: createBiometricPaymentSession_begin_def Let_def registry_ok_def split: sum.splits)
next
  case (CreateResume p idNow rnd now c m amt)
  assume ok: "registry_ok s"
  show ?thesis
  proof (cases "createBiometricPaymentSession_resume p idNow rnd now c m amt s")
    case None
    with CreateResume ok show ?thesis by simp
  next
    case (Some r)
    show ?thesis
    proof (cases r)
      case (Inl e)
      with Some CreateResume ok show ?thesis by simp
    next
      case (Inr x)
      obtain sid s' where x: "x = (sid, s')" by (cases x)
      from createResume_heap[of p idNow rnd now c m amt s sid s'] Some Inr x
      have h: "heap s' = heap s @
         [\<lparr>sessionId = sid, customerAddress = c, merchantAddress = m, amount = amt, status = Open,
           createdAt = now, completedAt = None, biometricHash = None\<rparr>]"
        and r: "appSessions s' = map_set sid (length (heap s)) (appSessions s)" by simp_all
      have "registry_ok s'"
        unfolding registry_ok_def h r using ok set_map_set[of sid "length (heap s)" "appSessions s"]
        by (fastforce simp: registry_ok_def)
      with Some Inr x CreateResume show ?thesis by simp
    qed
  qed
next
  case (PayBegin rid sid)
  assume "registry_ok s"
  then show ?thesis using PayBegin
    by (auto simp: processBiometricPayment_begin_def Let_def split_beta registry_ok_def
        split: option.splits sum.splits if_splits)
next
  case (PayResume a p hash now)
  assume ok: "registry_ok s"
  show ?thesis
  proof (cases "processBiometricPayment_resume a p hash now s")
    case None
    with PayResume ok show ?thesis by simp
  next
    case (Some r)
    show ?thesis
    proof (cases r)
      case (Inl e)
      with Some PayResume ok show ?thesis by simp
    next
      case (Inr s')
      from payResume_heap[of a p hash now s s'] Some Inr PayResume ok
      show ?thesis by (simp add: registry_ok_def)
    qed
  qed
qed (simp_all add: getChannels_def getLedgerBalances_def Let_def registry_ok_def)

lemma registry_ok_run: "registry_ok s \<Longrightarrow> registry_ok (run R evs s)"
  by (induction evs arbitrary: s) (simp_all add: registry_ok_step)

lemma registry_ok_init: "registry_ok (init w k n sc a)"
  by (simp add: registry_ok_def init_def)

















end
